theory Spec2Isabelle
  imports Complex_Main
begin

section \<open>Python values\<close>

text \<open>
  The backend handles JSON payloads and database rows as Python dictionaries whose
  values are \<open>None\<close>, booleans, numbers and strings. Numbers (Python \<open>int\<close>,
  \<open>float\<close>, \<open>Decimal\<close>) are idealised as exact rationals: the rounding error of
  binary floating point, overflow, infinities and NaN are outside this model. JSON arrays
  and objects as field values are outside the model as well.
\<close>

datatype pyval = PNone | PBool bool | PNum rat | PStr string

datatype py_error = TypeError | ValueError | KeyError | AttributeError | DBError

text \<open>
  \<open>float(s)\<close> on a string: the model reads a plain decimal literal (optional sign,
  digits, optional fraction). Python also reads surrounding blanks, exponents, underscores
  and the spellings of infinity and NaN; those texts are outside the model.
\<close>

fun nat_of_digits :: "string \<Rightarrow> nat \<Rightarrow> nat option" where
  "nat_of_digits [] acc = Some acc"
| "nat_of_digits (c # cs) acc =
     (if c \<in> set ''0123456789'' then nat_of_digits cs (10 * acc + (of_char c - 48))
      else None)"

definition float_of_str :: "string \<Rightarrow> rat option" where
  "float_of_str s =
     (let (neg, u) = (case s of
                        [] \<Rightarrow> (False, s)
                      | c # r \<Rightarrow> if c = CHR ''-'' then (True, r)
                                 else if c = CHR ''+'' then (False, r) else (False, s));
          ip = takeWhile (\<lambda>c. c \<noteq> CHR ''.'') u;
          fp = drop 1 (dropWhile (\<lambda>c. c \<noteq> CHR ''.'') u)
      in if ip = [] \<and> fp = [] then None
         else (case (nat_of_digits ip 0, nat_of_digits fp 0) of
                 (Some a, Some b) \<Rightarrow>
                   Some ((if neg then - 1 else 1) * (of_nat a + of_nat b / 10 ^ length fp))
               | _ \<Rightarrow> None))"

text \<open>\<open>float(v)\<close>: \<open>TypeError\<close> on \<open>None\<close>, \<open>ValueError\<close> on a text that is no number.\<close>

fun py_float :: "pyval \<Rightarrow> py_error + rat" where
  "py_float PNone = Inl TypeError"
| "py_float (PBool b) = Inr (if b then 1 else 0)"
| "py_float (PNum r) = Inr r"
| "py_float (PStr s) = (case float_of_str s of None \<Rightarrow> Inl ValueError | Some r \<Rightarrow> Inr r)"

text \<open>Truth value of a Python value, as \<open>not v\<close> and \<open>if v\<close> test it.\<close>

fun py_truthy :: "pyval \<Rightarrow> bool" where
  "py_truthy PNone = False"
| "py_truthy (PBool b) = b"
| "py_truthy (PNum r) = (r \<noteq> 0)"
| "py_truthy (PStr s) = (s \<noteq> [])"

text \<open>
  \<open>round(x)\<close> on a float rounds to the nearest integer, a tie going to the even
  neighbour; \<open>round(x, 2)\<close> does the same at the second decimal place.
\<close>

definition py_round :: "rat \<Rightarrow> int" where
  "py_round x =
     (let f = \<lfloor>x\<rfloor>; d = x - of_int f
      in if d < 1 / 2 then f else if 1 / 2 < d then f + 1
         else if even f then f else f + 1)"

definition py_round2 :: "rat \<Rightarrow> rat" where
  "py_round2 x = of_int (py_round (x * 100)) / 100"

section \<open>Helper functions of the backend\<close>

text \<open>
  \<open>calculate_health_score(calories, protein, fiber, sugars)\<close>. Its callers pass
  floats. The early return gives the integer 0, the clamp the integers 0 and 100; they
  are the same numbers here.
\<close>

definition calculate_health_score :: "rat \<Rightarrow> rat \<Rightarrow> rat \<Rightarrow> rat \<Rightarrow> rat" where
  "calculate_health_score calories protein fiber sugars =
     (if calories \<le> 0 then 0
      else
        let protein_score = (if calories > 0 then (protein / calories) * 50 else 0);
            fiber_score = fiber * 5;
            sugar_penalty = sugars * (5 / 2);
            score = 70 + protein_score + fiber_score - sugar_penalty
        in max 0 (min 100 (py_round2 score)))"

text \<open>
  \<open>_to_cm\<close>, \<open>_to_kg\<close> and \<open>_unrealistic\<close> (an Isabelle name cannot start with an
  underscore). The unit is compared with a string literal, whatever value it is.
\<close>

definition to_cm :: "rat \<Rightarrow> pyval \<Rightarrow> rat" where
  "to_cm height_value height_unit =
     (if height_unit = PStr ''in'' then height_value * (254 / 100) else height_value)"

definition to_kg :: "rat \<Rightarrow> pyval \<Rightarrow> rat" where
  "to_kg weight_value weight_unit =
     (if weight_unit = PStr ''lb'' then weight_value * (45359237 / 100000000)
      else weight_value)"

definition multipliers :: "(string \<times> rat) list" where
  "multipliers =
     [(''weight_loss'', 80 / 100), (''maintain'', 1), (''eat_healthy'', 1),
      (''weight_gain'', 115 / 100)]"

text \<open>\<open>multipliers.get(dietary_goal, 1.00)\<close>: a key that is no string finds nothing.\<close>

definition multiplier_of :: "pyval \<Rightarrow> rat" where
  "multiplier_of dietary_goal =
     (case dietary_goal of
        PStr g \<Rightarrow> (case map_of multipliers g of Some m \<Rightarrow> m | None \<Rightarrow> 1)
      | _ \<Rightarrow> 1)"

definition calculate_target_calories ::
  "pyval \<Rightarrow> pyval \<Rightarrow> pyval \<Rightarrow> pyval \<Rightarrow> pyval \<Rightarrow> py_error + int" where
  "calculate_target_calories height_value height_unit weight_value weight_unit dietary_goal =
     (case py_float height_value of
        Inl e \<Rightarrow> Inl e
      | Inr h \<Rightarrow>
         (case py_float weight_value of
            Inl e \<Rightarrow> Inl e
          | Inr w \<Rightarrow>
             let h_cm = to_cm h height_unit;
                 w_kg = to_kg w weight_unit;
                 baseline = (22 * w_kg) + (6 * h_cm);
                 mult = multiplier_of dietary_goal;
                 raw = baseline * mult;
                 rounded = py_round (raw / 10) * 10
             in Inr (max 1200 (min 4000 rounded))))"

definition unrealistic :: "rat \<Rightarrow> rat \<Rightarrow> bool" where
  "unrealistic height_cm weight_kg \<longleftrightarrow>
     height_cm < 100 \<or> height_cm > 250 \<or> weight_kg < 30 \<or> weight_kg > 300"

section \<open>The calculators as the specification words them\<close>

datatype height_unit = Cm | Inch
datatype weight_unit = Kg | Lb






text \<open>
  A multiple of 10 at distance at most 5 from \<open>x\<close> is a nearest one: any two multiples
  of 10 are at least 10 apart. At a tie there are two of them.
\<close>

definition nearest_multiple_of_10 :: "rat \<Rightarrow> int \<Rightarrow> bool" where
  "nearest_multiple_of_10 x r \<longleftrightarrow> 10 dvd r \<and> \<bar>x - of_int r\<bar> \<le> 5"



section \<open>Dictionaries, conversions and the store\<close>

text \<open>
  A JSON payload, a database row (\<open>dict_row\<close>) and the session entry are Python
  dictionaries from field names to values. A column that is NULL is a key bound to
  \<open>None\<close>.
\<close>

type_synonym row = "string \<rightharpoonup> pyval"

text \<open>\<open>d.get(k)\<close> and \<open>d.get(k, default)\<close>.\<close>

definition dict_get :: "row \<Rightarrow> string \<Rightarrow> pyval" where
  "dict_get d k = (case d k of None \<Rightarrow> PNone | Some v \<Rightarrow> v)"

definition dict_get_default :: "row \<Rightarrow> string \<Rightarrow> pyval \<Rightarrow> pyval" where
  "dict_get_default d k dflt = (case d k of None \<Rightarrow> dflt | Some v \<Rightarrow> v)"

text \<open>
  \<open>int(v)\<close>: a number is truncated toward zero, a text must be an optional sign and
  digits.
\<close>

definition int_of_str :: "string \<Rightarrow> int option" where
  "int_of_str s =
     (let (neg, u) = (case s of
                        [] \<Rightarrow> (False, s)
                      | c # r \<Rightarrow> if c = CHR ''-'' then (True, r)
                                 else if c = CHR ''+'' then (False, r) else (False, s))
      in if u = [] then None
         else (case nat_of_digits u 0 of
                 None \<Rightarrow> None
               | Some a \<Rightarrow> Some (if neg then - int a else int a)))"

fun py_int :: "pyval \<Rightarrow> py_error + int" where
  "py_int PNone = Inl TypeError"
| "py_int (PBool b) = Inr (if b then 1 else 0)"
| "py_int (PNum r) = Inr (if 0 \<le> r then \<lfloor>r\<rfloor> else \<lceil>r\<rceil>)"
| "py_int (PStr s) = (case int_of_str s of None \<Rightarrow> Inl ValueError | Some i \<Rightarrow> Inr i)"

text \<open>
  \<open>str(v)\<close>. An integral number prints its decimal digits, as a Python \<open>int\<close>
  does. The model does not track whether another number is a \<open>float\<close> or a
  \<open>Decimal\<close>, so it prints as the fraction in lowest terms: one text per value, and
  different values have different texts, as the values read from one database column do.
\<close>

fun digits :: "nat \<Rightarrow> string" where
  "digits n =
     (if n < 10 then [''0123456789'' ! n]
      else digits (n div 10) @ [''0123456789'' ! (n mod 10)])"

declare digits.simps [simp del]

definition show_int :: "int \<Rightarrow> string" where
  "show_int i = (if i < 0 then CHR ''-'' # digits (nat (- i)) else digits (nat i))"

definition show_num :: "rat \<Rightarrow> string" where
  "show_num r =
     (case quotient_of r of
        (n, d) \<Rightarrow> if d = 1 then show_int n else show_int n @ ''/'' @ show_int d)"

fun py_str :: "pyval \<Rightarrow> string" where
  "py_str PNone = ''None''"
| "py_str (PBool b) = (if b then ''True'' else ''False'')"
| "py_str (PNum r) = show_num r"
| "py_str (PStr s) = s"

text \<open>\<open>', '.join(xs)\<close>.\<close>

fun join_comma :: "string list \<Rightarrow> string" where
  "join_comma [] = []"
| "join_comma [x] = x"
| "join_comma (x # y # ys) = x @ '', '' @ join_comma (y # ys)"

text \<open>\<open>s.strip()\<close>, on the ASCII white space.\<close>

definition is_space :: "char \<Rightarrow> bool" where
  "is_space c \<longleftrightarrow> c \<in> {CHR '' '', CHR 0x09, CHR 0x0A, CHR 0x0B, CHR 0x0C, CHR 0x0D}"

definition strip :: "string \<Rightarrow> string" where
  "strip s = rev (dropWhile is_space (rev (dropWhile is_space s)))"

text \<open>
  The session entry \<open>session["user"]\<close>: \<open>{user_id, username, role}\<close>, copied from
  a row of \<open>users\<close> at login.
\<close>

record principal =
  p_user_id :: pyval
  p_username :: pyval
  p_role :: pyval

text \<open>A record of \<open>user_profile_changes\<close>; \<open>changed_fields\<close> maps a field to its
  \<open>from\<close> and \<open>to\<close> values.\<close>

record audit_record =
  a_user_id :: pyval
  a_changed_by_user_id :: pyval
  a_changed_by_role :: pyval
  a_changed_fields :: "string \<rightharpoonup> (pyval \<times> pyval)"
  a_changed_at :: pyval

text \<open>
  The relational store and the process state. The schema is not part of the sources; the
  model takes the columns from the SQL statements of the backend, a serial key per table
  and no column default. \<open>conn_plan\<close> is the fate of the coming
  \<open>with get_conn() as conn:\<close> blocks, one entry per block, \<open>False\<close> for a block
  that raises (the connection, or a statement in it, fails; psycopg then rolls the block
  back, so a failed block writes nothing). When the plan is used up every block succeeds.
  \<open>clock\<close> is what \<open>datetime.utcnow()\<close> returns.
\<close>

record state =
  users :: "row list"
  food_items :: "row list"
  consumption :: "row list"
  user_profile_changes :: "audit_record list"
  next_user_id :: int
  next_entry_id :: int
  bootstrap_done :: bool
  conn_plan :: "bool list"
  clock :: pyval

definition get_conn :: "state \<Rightarrow> bool \<times> state" where
  "get_conn s =
     (case conn_plan s of
        [] \<Rightarrow> (True, s)
      | ok # rest \<Rightarrow> (ok, s\<lparr>conn_plan := rest\<rparr>))"

text \<open>
  SQL: \<open>WHERE col = %s\<close> (NULL equals nothing), the column list of a \<open>SELECT\<close> or
  \<open>RETURNING\<close>, \<open>fetchone()\<close> after a \<open>SELECT\<close>, and
  \<open>UPDATE ... SET ... WHERE col = %s RETURNING ...\<close>. A value is stored as it is
  passed: the conversion to the column type is not modelled.
\<close>

definition sql_eq :: "row \<Rightarrow> string \<Rightarrow> pyval \<Rightarrow> bool" where
  "sql_eq r col v \<longleftrightarrow> v \<noteq> PNone \<and> r col = Some v"

definition project :: "string list \<Rightarrow> row \<Rightarrow> row" where
  "project cols r = (\<lambda>k. if k \<in> set cols then r k else None)"

definition select_one :: "string list \<Rightarrow> string \<Rightarrow> pyval \<Rightarrow> row list \<Rightarrow> row option" where
  "select_one cols col v tbl = map_option (project cols) (find (\<lambda>r. sql_eq r col v) tbl)"

definition select_star :: "string \<Rightarrow> pyval \<Rightarrow> row list \<Rightarrow> row option" where
  "select_star col v tbl = find (\<lambda>r. sql_eq r col v) tbl"

definition update_set :: "row \<Rightarrow> string \<Rightarrow> pyval \<Rightarrow> row list \<Rightarrow> row list" where
  "update_set sets col v tbl = map (\<lambda>r. if sql_eq r col v then r ++ sets else r) tbl"

definition update_returning ::
  "string list \<Rightarrow> row \<Rightarrow> string \<Rightarrow> pyval \<Rightarrow> row list \<Rightarrow> row option" where
  "update_returning cols sets col v tbl =
     map_option (\<lambda>r. project cols (r ++ sets)) (find (\<lambda>r. sql_eq r col v) tbl)"

definition update_returning_star :: "row \<Rightarrow> string \<Rightarrow> pyval \<Rightarrow> row list \<Rightarrow> row option" where
  "update_returning_star sets col v tbl =
     map_option (\<lambda>r. r ++ sets) (find (\<lambda>r. sql_eq r col v) tbl)"

text \<open>\<open>float(row[k])\<close>.\<close>

definition field_float :: "row \<Rightarrow> string \<Rightarrow> py_error + rat" where
  "field_float r k = (case r k of None \<Rightarrow> Inl KeyError | Some v \<Rightarrow> py_float v)"

definition user_columns :: "string list" where
  "user_columns =
     [''user_id'', ''username'', ''role'', ''dietary_goal'', ''target_calories'',
      ''height_value'', ''height_unit'', ''weight_value'', ''weight_unit'', ''created_at'']"

text \<open>HTTP responses: the JSON body and the status code.\<close>

datatype body =
    Error string
  | Exception py_error
  | Confirm string int
  | Row row
  | RowComplete row
  | Null
  | Session principal

type_synonym response = "body \<times> nat"

section \<open>Audit trail, bootstrap and login\<close>

text \<open>
  \<open>_audit_profile_change(target_user_id, changed_by, old_row, new_row)\<close>. The loop
  over the six tracked fields builds \<open>changed\<close>; nothing is written when it stays
  empty.
\<close>

definition tracked_fields :: "string list" where
  "tracked_fields =
     [''height_value'', ''height_unit'', ''weight_value'', ''weight_unit'',
      ''dietary_goal'', ''target_calories'']"

definition changed_of :: "row \<Rightarrow> row \<Rightarrow> string \<rightharpoonup> (pyval \<times> pyval)" where
  "changed_of old_row new_row =
     foldl (\<lambda>changed k.
              if py_str (dict_get old_row k) \<noteq> py_str (dict_get new_row k)
              then changed(k \<mapsto> (dict_get old_row k, dict_get new_row k))
              else changed)
           Map.empty tracked_fields"

definition audit_profile_change ::
  "pyval \<Rightarrow> principal \<Rightarrow> row \<Rightarrow> row \<Rightarrow> state \<Rightarrow> (py_error + unit) \<times> state" where
  "audit_profile_change target_user_id changed_by old_row new_row s =
     (let changed = changed_of old_row new_row
      in if changed = Map.empty then (Inr (), s)
         else (case get_conn s of
                 (False, s1) \<Rightarrow> (Inl DBError, s1)
               | (True, s1) \<Rightarrow>
                  (Inr (),
                   s1\<lparr>user_profile_changes := user_profile_changes s1 @
                        [\<lparr>a_user_id = target_user_id,
                          a_changed_by_user_id = p_user_id changed_by,
                          a_changed_by_role = p_role changed_by,
                          a_changed_fields = changed,
                          a_changed_at = clock s1\<rparr>]\<rparr>)))"

text \<open>
  What the backend takes from outside the repository: the password hashing of werkzeug
  and the process environment.
\<close>

record runtime =
  generate_password_hash :: "string \<Rightarrow> pyval"
  check_password_hash :: "pyval \<Rightarrow> pyval \<Rightarrow> bool"
  getenv :: "string \<rightharpoonup> string"

definition getenv_default :: "runtime \<Rightarrow> string \<Rightarrow> string \<Rightarrow> string" where
  "getenv_default rt name dflt = (case getenv rt name of None \<Rightarrow> dflt | Some v \<Rightarrow> v)"

text \<open>\<open>SELECT ... FROM users WHERE role='admin' ORDER BY user_id LIMIT 1\<close>.\<close>

definition user_id_key :: "row \<Rightarrow> rat" where
  "user_id_key r = (case r ''user_id'' of Some (PNum n) \<Rightarrow> n | _ \<Rightarrow> 0)"

definition first_admin :: "row list \<Rightarrow> row option" where
  "first_admin tbl =
     (case sort_key user_id_key (filter (\<lambda>r. sql_eq r ''role'' (PStr ''admin'')) tbl) of
        [] \<Rightarrow> None
      | a # _ \<Rightarrow> Some a)"

text \<open>A fresh row of \<open>users\<close>: every column the \<open>INSERT\<close> does not name is NULL.\<close>

definition null_user :: row where
  "null_user =
     [''user_id'' \<mapsto> PNone, ''username'' \<mapsto> PNone, ''role'' \<mapsto> PNone,
      ''password_hash'' \<mapsto> PNone, ''dietary_goal'' \<mapsto> PNone,
      ''target_calories'' \<mapsto> PNone, ''height_value'' \<mapsto> PNone,
      ''height_unit'' \<mapsto> PNone, ''weight_value'' \<mapsto> PNone,
      ''weight_unit'' \<mapsto> PNone, ''created_at'' \<mapsto> PNone]"

text \<open>
  \<open>ensure_admin_bootstrap()\<close>: one connection block inside \<open>try\<close>, with
  \<open>except Exception: pass\<close>. It returns nothing.
\<close>

definition ensure_admin_bootstrap :: "runtime \<Rightarrow> state \<Rightarrow> state" where
  "ensure_admin_bootstrap rt s =
     (let admin_password = getenv_default rt ''ADMIN_BOOTSTRAP_PASSWORD'' ''admin123''
      in case get_conn s of
           (False, s1) \<Rightarrow> s1
         | (True, s1) \<Rightarrow>
            let admin = first_admin (users s1);
                s2 = (case admin of
                        None \<Rightarrow>
                          s1\<lparr>users := users s1 @
                               [null_user(''user_id'' \<mapsto> PNum (of_int (next_user_id s1)),
                                          ''username'' \<mapsto> PStr ''admin'',
                                          ''role'' \<mapsto> PStr ''admin'',
                                          ''password_hash'' \<mapsto>
                                             generate_password_hash rt admin_password,
                                          ''dietary_goal'' \<mapsto> PStr ''maintain'',
                                          ''target_calories'' \<mapsto> PNum 2000,
                                          ''created_at'' \<mapsto> clock s1)],
                             next_user_id := next_user_id s1 + 1\<rparr>
                      | Some a \<Rightarrow>
                          if \<not> py_truthy (dict_get a ''password_hash'')
                          then s1\<lparr>users :=
                                 update_set
                                   [''password_hash'' \<mapsto>
                                      generate_password_hash rt admin_password]
                                   ''user_id'' (dict_get a ''user_id'') (users s1)\<rparr>
                          else s1);
                demo_password = getenv_default rt ''DEMO_USER_PASSWORD'' ''password''
            in s2\<lparr>users :=
                  map (\<lambda>r. if dict_get r ''password_hash'' = PNone
                               \<and> dict_get r ''username'' \<noteq> PNone
                               \<and> dict_get r ''username'' \<noteq> PStr ''admin''
                            then r(''password_hash'' \<mapsto>
                                     generate_password_hash rt demo_password)
                            else r)
                      (users s2)\<rparr>)"

text \<open>
  \<open>_bootstrap_once\<close>, the \<open>before_request\<close> hook: it returns \<open>None\<close>, so Flask
  goes on to the handler of the request.
\<close>

definition bootstrap_once :: "runtime \<Rightarrow> state \<Rightarrow> state" where
  "bootstrap_once rt s =
     (if \<not> bootstrap_done s then (ensure_admin_bootstrap rt s)\<lparr>bootstrap_done := True\<rparr>
      else s)"

definition serve :: "runtime \<Rightarrow> (state \<Rightarrow> response \<times> state) \<Rightarrow> state \<Rightarrow> response \<times> state" where
  "serve rt handler s = handler (bootstrap_once rt s)"

text \<open>The decorators \<open>require_auth\<close> and \<open>require_admin\<close>.\<close>

definition require_auth ::
  "(principal \<Rightarrow> state \<Rightarrow> response \<times> state) \<Rightarrow> principal option \<Rightarrow> state \<Rightarrow> response \<times> state"
  where
  "require_auth fn current_user s =
     (case current_user of
        None \<Rightarrow> ((Error ''Not authenticated'', 401), s)
      | Some u \<Rightarrow> fn u s)"

definition require_admin ::
  "(principal \<Rightarrow> state \<Rightarrow> response \<times> state) \<Rightarrow> principal option \<Rightarrow> state \<Rightarrow> response \<times> state"
  where
  "require_admin fn current_user s =
     (case current_user of
        None \<Rightarrow> ((Error ''Not authenticated'', 401), s)
      | Some u \<Rightarrow>
         if p_role u \<noteq> PStr ''admin'' then ((Error ''You don't have permission'', 403), s)
         else fn u s)"

text \<open>
  \<open>login()\<close> (\<open>POST /api/auth/login\<close>). The third component of the result is the
  session entry after the request. \<open>.strip()\<close> on a value that is no string raises
  outside the \<open>try\<close>; Flask answers 500.
\<close>

definition login ::
  "runtime \<Rightarrow> row \<Rightarrow> principal option \<Rightarrow> state \<Rightarrow> response \<times> principal option \<times> state" where
  "login rt data session s =
     (let u = dict_get data ''username'';
          p = dict_get data ''password'';
          password = (if py_truthy p then p else PStr [])
      in case (if py_truthy u then u else PStr []) of
           PStr name \<Rightarrow>
             (let username = strip name
              in if username = [] \<or> \<not> py_truthy password
                 then ((Error ''Username and password are required'', 400), session, s)
                 else (case get_conn s of
                         (False, s1) \<Rightarrow> ((Exception DBError, 500), session, s1)
                       | (True, s1) \<Rightarrow>
                          (case select_one [''user_id'', ''username'', ''role'', ''password_hash'']
                                  ''username'' (PStr username) (users s1) of
                             None \<Rightarrow>
                               ((Error ''Invalid username or password'', 401), session, s1)
                           | Some user \<Rightarrow>
                               if \<not> py_truthy (dict_get user ''password_hash'')
                                  \<or> \<not> check_password_hash rt (dict_get user ''password_hash'')
                                        password
                               then ((Error ''Invalid username or password'', 401), session, s1)
                               else
                                 let entry = \<lparr>p_user_id = dict_get user ''user_id'',
                                              p_username = dict_get user ''username'',
                                              p_role = dict_get user ''role''\<rparr>
                                 in ((Session entry, 200), Some entry, s1))))
         | _ \<Rightarrow> ((Exception AttributeError, 500), session, s))"

section \<open>Profile handlers\<close>

text \<open>
  \<open>for k in keys: if k in data and data[k] is not None: new_row[k] = data[k]\<close>,
  on a copy of the row read from the store.
\<close>

definition compose_row :: "string list \<Rightarrow> row \<Rightarrow> row \<Rightarrow> row" where
  "compose_row keys data base =
     foldl (\<lambda>new_row k.
              if data k \<noteq> None \<and> data k \<noteq> Some PNone then new_row(k := data k)
              else new_row)
           base keys"

definition msg_unusual :: string where
  "msg_unusual = ''Your height/weight look unusual. Please confirm to continue.''"

text \<open>The parameters of the \<open>UPDATE users SET ...\<close> of the two own-profile handlers.\<close>

definition profile_sets :: "row \<Rightarrow> row" where
  "profile_sets new_row =
     [''dietary_goal'' \<mapsto> dict_get new_row ''dietary_goal'',
      ''target_calories'' \<mapsto> dict_get new_row ''target_calories'',
      ''height_value'' \<mapsto> dict_get new_row ''height_value'',
      ''height_unit'' \<mapsto> dict_get new_row ''height_unit'',
      ''weight_value'' \<mapsto> dict_get new_row ''weight_value'',
      ''weight_unit'' \<mapsto> dict_get new_row ''weight_unit'']"

text \<open>
  \<open>update_profile()\<close> (\<open>PUT /api/profile\<close>), below \<open>require_auth\<close>. Every
  exception inside \<open>try\<close> becomes a 500. When \<open>fetchone()\<close> after the
  \<open>UPDATE\<close> gives \<open>None\<close>, the audit raises at its first \<open>new_row.get\<close>.
\<close>

text \<open>The second half of \<open>update_profile\<close>: the \<open>UPDATE\<close>, the audit and the answer.\<close>

definition update_profile_write ::
  "principal \<Rightarrow> row \<Rightarrow> row \<Rightarrow> state \<Rightarrow> response \<times> state" where
  "update_profile_write current old_row new_row s1 =
     (case get_conn s1 of
        (False, s2) \<Rightarrow> ((Exception DBError, 500), s2)
      | (True, s2) \<Rightarrow>
         let sets = profile_sets new_row;
             row = update_returning user_columns sets ''user_id'' (p_user_id current) (users s2);
             s3 = s2\<lparr>users := update_set sets ''user_id'' (p_user_id current) (users s2)\<rparr>
         in (case row of
               None \<Rightarrow> ((Exception AttributeError, 500), s3)
             | Some row \<Rightarrow>
                (case audit_profile_change (p_user_id current) current old_row row s3 of
                   (Inl e, s4) \<Rightarrow> ((Exception e, 500), s4)
                 | (Inr _, s4) \<Rightarrow> ((Row row, 200), s4))))"

definition update_profile :: "row \<Rightarrow> principal \<Rightarrow> state \<Rightarrow> response \<times> state" where
  "update_profile data current s =
     (if data = Map.empty then ((Error ''No fields to update'', 400), s)
      else case get_conn s of
        (False, s1) \<Rightarrow> ((Exception DBError, 500), s1)
      | (True, s1) \<Rightarrow>
         (case select_one user_columns ''user_id'' (p_user_id current) (users s1) of
            None \<Rightarrow> ((Error ''Not found'', 404), s1)
          | Some old_row \<Rightarrow>
             let new_row = compose_row
                   [''dietary_goal'', ''height_value'', ''height_unit'', ''weight_value'',
                    ''weight_unit''] data old_row
             in if \<not> py_truthy (dict_get new_row ''height_value'')
                   \<or> \<not> py_truthy (dict_get new_row ''weight_value'')
                then ((Error ''Please enter both height and weight to update your goal.'', 400),
                      s1)
                else
                 (case py_float (dict_get new_row ''height_value'') of
                    Inl e \<Rightarrow> ((Exception e, 500), s1)
                  | Inr h \<Rightarrow>
                 (case py_float (dict_get new_row ''weight_value'') of
                    Inl e \<Rightarrow> ((Exception e, 500), s1)
                  | Inr w \<Rightarrow>
                 let h_cm = to_cm h (dict_get_default new_row ''height_unit'' (PStr ''cm''));
                     w_kg = to_kg w (dict_get_default new_row ''weight_unit'' (PStr ''kg''))
                 in
                 if unrealistic h_cm w_kg \<and> \<not> py_truthy (dict_get data ''confirm_unrealistic'')
                 then
                   (case calculate_target_calories
                           (dict_get new_row ''height_value'')
                           (dict_get_default new_row ''height_unit'' (PStr ''cm''))
                           (dict_get new_row ''weight_value'')
                           (dict_get_default new_row ''weight_unit'' (PStr ''kg''))
                           (dict_get_default new_row ''dietary_goal'' (PStr ''maintain'')) of
                      Inl e \<Rightarrow> ((Exception e, 500), s1)
                    | Inr preview \<Rightarrow> ((Confirm msg_unusual preview, 400), s1))
                 else
                   (case calculate_target_calories
                           (dict_get new_row ''height_value'')
                           (dict_get_default new_row ''height_unit'' (PStr ''cm''))
                           (dict_get new_row ''weight_value'')
                           (dict_get_default new_row ''weight_unit'' (PStr ''kg''))
                           (dict_get_default new_row ''dietary_goal'' (PStr ''maintain'')) of
                      Inl e \<Rightarrow> ((Exception e, 500), s1)
                    | Inr target \<Rightarrow>
                       update_profile_write current old_row
                         (new_row(''target_calories'' \<mapsto> PNum (of_int target))) s1)))))"

text \<open>
  \<open>complete_profile()\<close> (\<open>POST /api/profile/complete\<close>), below
  \<open>require_auth\<close>. A \<open>ValueError\<close> inside \<open>try\<close> becomes a 400, any other
  exception a 500. The read of the old values and the audit have a \<open>try\<close> of their
  own, with \<open>except Exception: pass\<close>.
\<close>

definition complete_profile_except :: "py_error \<Rightarrow> response" where
  "complete_profile_except e =
     (if e = ValueError
      then (Error ''height_value and weight_value must be valid numbers'', 400)
      else (Exception e, 500))"

text \<open>
  The second half of \<open>complete_profile\<close>: the read of the old values, the
  \<open>UPDATE\<close> with its parameters \<open>sets\<close>, the audit \<open>if old_row\<close> and the
  answer. \<open>{**row, ...}\<close> raises \<open>TypeError\<close> when the \<open>UPDATE\<close> found no row.
\<close>

definition complete_profile_write :: "row \<Rightarrow> principal \<Rightarrow> state \<Rightarrow> response \<times> state" where
  "complete_profile_write sets current s =
     (let (old_row, s1) =
            (case get_conn s of
               (False, s1) \<Rightarrow> (None, s1)
             | (True, s1) \<Rightarrow>
                (select_one tracked_fields ''user_id'' (p_user_id current) (users s1), s1))
      in (case get_conn s1 of
            (False, s2) \<Rightarrow> (complete_profile_except DBError, s2)
          | (True, s2) \<Rightarrow>
             let row = update_returning user_columns sets
                         ''user_id'' (p_user_id current) (users s2);
                 s3 = s2\<lparr>users := update_set sets ''user_id'' (p_user_id current) (users s2)\<rparr>
             in (case row of
                   None \<Rightarrow> (complete_profile_except TypeError, s3)
                 | Some row \<Rightarrow>
                    let s4 = (case old_row of
                                None \<Rightarrow> s3
                              | Some old_row \<Rightarrow>
                                 if old_row = Map.empty then s3
                                 else snd (audit_profile_change (p_user_id current)
                                             current old_row row s3))
                    in ((RowComplete row, 200), s4))))"

definition complete_profile :: "row \<Rightarrow> principal \<Rightarrow> state \<Rightarrow> response \<times> state" where
  "complete_profile data current s =
     (let required = [''height_value'', ''height_unit'', ''weight_value'', ''weight_unit'',
                      ''dietary_goal''];
          missing = filter (\<lambda>k. data k = None) required
      in if missing \<noteq> [] then ((Error (''Missing fields: '' @ join_comma missing), 400), s)
      else
       (case py_float (dict_get data ''height_value'') of
          Inl e \<Rightarrow> (complete_profile_except e, s)
        | Inr height_value \<Rightarrow>
       (case py_float (dict_get data ''weight_value'') of
          Inl e \<Rightarrow> (complete_profile_except e, s)
        | Inr weight_value \<Rightarrow>
       let height_unit = dict_get data ''height_unit'';
           weight_unit = dict_get data ''weight_unit'';
           dietary_goal = dict_get data ''dietary_goal''
       in
       if height_unit \<notin> set [PStr ''cm'', PStr ''in'']
       then ((Error (''height_unit must be 'cm' or 'in'' @ [CHR 0x27]), 400), s)
       else if weight_unit \<notin> set [PStr ''kg'', PStr ''lb'']
       then ((Error (''weight_unit must be 'kg' or 'lb'' @ [CHR 0x27]), 400), s)
       else if dietary_goal \<notin> set [PStr ''weight_gain'', PStr ''weight_loss'',
                                     PStr ''maintain'', PStr ''eat_healthy'']
       then ((Error ''Invalid dietary_goal'', 400), s)
       else
       let h_cm = to_cm height_value height_unit;
           w_kg = to_kg weight_value weight_unit
       in
       if unrealistic h_cm w_kg \<and> \<not> py_truthy (dict_get data ''confirm_unrealistic'')
       then
         (case calculate_target_calories (PNum height_value) height_unit
                 (PNum weight_value) weight_unit dietary_goal of
            Inl e \<Rightarrow> (complete_profile_except e, s)
          | Inr preview \<Rightarrow> ((Confirm msg_unusual preview, 400), s))
       else
         (case calculate_target_calories (PNum height_value) height_unit
                 (PNum weight_value) weight_unit dietary_goal of
            Inl e \<Rightarrow> (complete_profile_except e, s)
          | Inr target_calories \<Rightarrow>
             complete_profile_write
               [''height_value'' \<mapsto> PNum height_value,
                ''height_unit'' \<mapsto> height_unit,
                ''weight_value'' \<mapsto> PNum weight_value,
                ''weight_unit'' \<mapsto> weight_unit,
                ''dietary_goal'' \<mapsto> dietary_goal,
                ''target_calories'' \<mapsto> PNum (of_int target_calories)] current s))))"

text \<open>\<open>create_user()\<close> (\<open>POST /api/users\<close>), below \<open>require_admin\<close>.\<close>

definition create_user :: "row \<Rightarrow> principal \<Rightarrow> state \<Rightarrow> response \<times> state" where
  "create_user data current s =
     (if data ''username'' = None then ((Error ''Missing required field: username'', 400), s)
      else
       let required_profile = [''height_value'', ''height_unit'', ''weight_value'',
                               ''weight_unit''];
           missing_profile = filter (\<lambda>k. data k = None) required_profile
       in if missing_profile \<noteq> []
          then ((Error (''Missing fields: '' @ join_comma missing_profile), 400), s)
       else
       let dietary_goal = dict_get_default data ''dietary_goal'' (PStr ''maintain'')
       in
       (case py_float (dict_get data ''height_value'') of
          Inl e \<Rightarrow> ((Exception e, 500), s)
        | Inr h \<Rightarrow>
       (case py_float (dict_get data ''weight_value'') of
          Inl e \<Rightarrow> ((Exception e, 500), s)
        | Inr w \<Rightarrow>
       let h_cm = to_cm h (dict_get_default data ''height_unit'' (PStr ''cm''));
           w_kg = to_kg w (dict_get_default data ''weight_unit'' (PStr ''kg''))
       in
       if unrealistic h_cm w_kg \<and> \<not> py_truthy (dict_get data ''confirm_unrealistic'')
       then
         (case calculate_target_calories
                 (dict_get data ''height_value'')
                 (dict_get_default data ''height_unit'' (PStr ''cm''))
                 (dict_get data ''weight_value'')
                 (dict_get_default data ''weight_unit'' (PStr ''kg''))
                 dietary_goal of
            Inl e \<Rightarrow> ((Exception e, 500), s)
          | Inr preview \<Rightarrow> ((Confirm msg_unusual preview, 400), s))
       else
         (case calculate_target_calories
                 (dict_get data ''height_value'')
                 (dict_get_default data ''height_unit'' (PStr ''cm''))
                 (dict_get data ''weight_value'')
                 (dict_get_default data ''weight_unit'' (PStr ''kg''))
                 dietary_goal of
            Inl e \<Rightarrow> ((Exception e, 500), s)
          | Inr target_calories \<Rightarrow>
             (case get_conn s of
                (False, s1) \<Rightarrow> ((Exception DBError, 500), s1)
              | (True, s1) \<Rightarrow>
                 let new_row =
                       null_user(''user_id'' \<mapsto> PNum (of_int (next_user_id s1)),
                                 ''username'' \<mapsto> dict_get data ''username'',
                                 ''role'' \<mapsto> dict_get_default data ''role'' (PStr ''user''),
                                 ''dietary_goal'' \<mapsto> dietary_goal,
                                 ''target_calories'' \<mapsto> PNum (of_int target_calories),
                                 ''height_value'' \<mapsto> dict_get data ''height_value'',
                                 ''height_unit'' \<mapsto>
                                    dict_get_default data ''height_unit'' (PStr ''cm''),
                                 ''weight_value'' \<mapsto> dict_get data ''weight_value'',
                                 ''weight_unit'' \<mapsto>
                                    dict_get_default data ''weight_unit'' (PStr ''kg''),
                                 ''created_at'' \<mapsto> clock s1)
                 in ((Row (project user_columns new_row), 201),
                     s1\<lparr>users := users s1 @ [new_row],
                        next_user_id := next_user_id s1 + 1\<rparr>))))))"


definition user_sets :: "row \<Rightarrow> row" where
  "user_sets new_row =
     [''role'' \<mapsto> dict_get new_row ''role'',
      ''dietary_goal'' \<mapsto> dict_get new_row ''dietary_goal'',
      ''target_calories'' \<mapsto> dict_get new_row ''target_calories'',
      ''height_value'' \<mapsto> dict_get new_row ''height_value'',
      ''height_unit'' \<mapsto> dict_get new_row ''height_unit'',
      ''weight_value'' \<mapsto> dict_get new_row ''weight_value'',
      ''weight_unit'' \<mapsto> dict_get new_row ''weight_unit'']"



section \<open>Consumption handlers\<close>


text \<open>
  \<open>update_consumption(entry_id)\<close> (\<open>PUT /api/consumption/<int:entry_id>\<close>), below
  \<open>require_auth\<close>. With \<open>portion_size\<close> in the payload the seven derived values
  are put into \<open>data\<close>; then every key of the fixed list that is in \<open>data\<close>
  becomes a \<open>SET key = %s\<close> of the \<open>UPDATE\<close>. A food item that is gone makes
  \<open>food["calories"]\<close> raise \<open>TypeError\<close>.
\<close>

definition updatable_keys :: "string list" where
  "updatable_keys =
     [''date'', ''portion_size'', ''calories'', ''protein'', ''carbs'', ''fat'', ''fiber'',
      ''sugars'', ''health_score'', ''meal_type'']"

text \<open>The second half of \<open>update_consumption\<close>: the query is built and run.\<close>

definition update_consumption_write :: "int \<Rightarrow> row \<Rightarrow> state \<Rightarrow> response \<times> state" where
  "update_consumption_write entry_id data s1 =
     (let fields = filter (\<lambda>key. data key \<noteq> None) updatable_keys;
          sets = project fields data
      in if fields = [] then ((Error ''No valid fields to update'', 400), s1)
         else
           (case update_returning_star sets ''entry_id'' (PNum (of_int entry_id))
                   (consumption s1) of
              None \<Rightarrow>
                ((Null, 200), s1)
            | Some row \<Rightarrow>
                ((Row row, 200),
                 s1\<lparr>consumption :=
                      update_set sets ''entry_id'' (PNum (of_int entry_id)) (consumption s1)\<rparr>)))"

definition update_consumption ::
  "int \<Rightarrow> row \<Rightarrow> principal \<Rightarrow> state \<Rightarrow> response \<times> state" where
  "update_consumption entry_id data current_user s =
     (if data = Map.empty then ((Error ''No fields to update'', 400), s)
      else
       (case get_conn s of
          (False, s1) \<Rightarrow> ((Exception DBError, 500), s1)
        | (True, s1) \<Rightarrow>
       (case select_star ''entry_id'' (PNum (of_int entry_id)) (consumption s1) of
          None \<Rightarrow> ((Error ''Not found'', 404), s1)
        | Some entry \<Rightarrow>
       (case (if p_role current_user \<noteq> PStr ''admin''
              then (case py_int (dict_get entry ''user_id'') of
                      Inl e \<Rightarrow> Inl e
                    | Inr owner \<Rightarrow>
                       (case py_int (p_user_id current_user) of
                          Inl e \<Rightarrow> Inl e
                        | Inr me \<Rightarrow> Inr (owner \<noteq> me)))
              else Inr False) of
          Inl e \<Rightarrow> ((Exception e, 500), s1)
        | Inr True \<Rightarrow> ((Error ''You don't have permission'', 403), s1)
        | Inr False \<Rightarrow>
       if data ''portion_size'' \<noteq> None then
         (let food = select_star ''food_id'' (dict_get entry ''food_id'') (food_items s1)
          in
         (case py_float (dict_get data ''portion_size'') of
            Inl e \<Rightarrow> ((Exception e, 500), s1)
          | Inr portion_size \<Rightarrow>
         (case food of
            None \<Rightarrow> ((Exception TypeError, 500), s1)
          | Some food \<Rightarrow>
         (case field_float food ''calories'' of
            Inl e \<Rightarrow> ((Exception e, 500), s1)
          | Inr food_calories \<Rightarrow>
         (case field_float food ''protein'' of
            Inl e \<Rightarrow> ((Exception e, 500), s1)
          | Inr food_protein \<Rightarrow>
         (case field_float food ''carbs'' of
            Inl e \<Rightarrow> ((Exception e, 500), s1)
          | Inr food_carbs \<Rightarrow>
         (case field_float food ''fat'' of
            Inl e \<Rightarrow> ((Exception e, 500), s1)
          | Inr food_fat \<Rightarrow>
         (case field_float food ''fiber'' of
            Inl e \<Rightarrow> ((Exception e, 500), s1)
          | Inr food_fiber \<Rightarrow>
         (case field_float food ''sugars'' of
            Inl e \<Rightarrow> ((Exception e, 500), s1)
          | Inr food_sugars \<Rightarrow>
         let calories = food_calories * portion_size;
             protein = food_protein * portion_size;
             carbs = food_carbs * portion_size;
             fat = food_fat * portion_size;
             fiber = food_fiber * portion_size;
             sugars = food_sugars * portion_size;
             health_score = calculate_health_score calories protein fiber sugars;
             data = data(''calories'' \<mapsto> PNum calories,
                         ''protein'' \<mapsto> PNum protein,
                         ''carbs'' \<mapsto> PNum carbs,
                         ''fat'' \<mapsto> PNum fat,
                         ''fiber'' \<mapsto> PNum fiber,
                         ''sugars'' \<mapsto> PNum sugars,
                         ''health_score'' \<mapsto> PNum health_score)
         in update_consumption_write entry_id data s1)))))))))
       else update_consumption_write entry_id data s1))))"

section \<open>Properties and a sample store\<close>



text \<open>
  A store with an administrator (user 1), two users (2 and 3, the latter stored with a
  height of 90 cm), one food item and one consumption entry of user 2: two portions of the
  food item.
\<close>

definition admin1 :: principal where
  "admin1 = \<lparr>p_user_id = PNum 1, p_username = PStr ''admin'', p_role = PStr ''admin''\<rparr>"

definition user2 :: principal where
  "user2 = \<lparr>p_user_id = PNum 2, p_username = PStr ''ana'', p_role = PStr ''user''\<rparr>"

definition sample_users :: "row list" where
  "sample_users =
     [[''user_id'' \<mapsto> PNum 1, ''username'' \<mapsto> PStr ''admin'',
       ''role'' \<mapsto> PStr ''admin'', ''password_hash'' \<mapsto> PStr ''h1'',
       ''dietary_goal'' \<mapsto> PStr ''maintain'', ''target_calories'' \<mapsto> PNum 2000,
       ''height_value'' \<mapsto> PNone, ''height_unit'' \<mapsto> PNone,
       ''weight_value'' \<mapsto> PNone, ''weight_unit'' \<mapsto> PNone,
       ''created_at'' \<mapsto> PStr ''2025-10-01T09:00:00''],
      [''user_id'' \<mapsto> PNum 2, ''username'' \<mapsto> PStr ''ana'',
       ''role'' \<mapsto> PStr ''user'', ''password_hash'' \<mapsto> PStr ''h2'',
       ''dietary_goal'' \<mapsto> PStr ''maintain'', ''target_calories'' \<mapsto> PNum 2560,
       ''height_value'' \<mapsto> PNum 170, ''height_unit'' \<mapsto> PStr ''cm'',
       ''weight_value'' \<mapsto> PNum 70, ''weight_unit'' \<mapsto> PStr ''kg'',
       ''created_at'' \<mapsto> PStr ''2025-10-02T09:00:00''],
      [''user_id'' \<mapsto> PNum 3, ''username'' \<mapsto> PStr ''ben'',
       ''role'' \<mapsto> PStr ''user'', ''password_hash'' \<mapsto> PStr ''h3'',
       ''dietary_goal'' \<mapsto> PStr ''maintain'', ''target_calories'' \<mapsto> PNum 2080,
       ''height_value'' \<mapsto> PNum 90, ''height_unit'' \<mapsto> PStr ''cm'',
       ''weight_value'' \<mapsto> PNum 70, ''weight_unit'' \<mapsto> PStr ''kg'',
       ''created_at'' \<mapsto> PStr ''2025-10-03T09:00:00'']]"

definition sample_food :: row where
  "sample_food =
     [''food_id'' \<mapsto> PNum 5, ''food_name'' \<mapsto> PStr ''oats'',
      ''calories'' \<mapsto> PNum 100, ''protein'' \<mapsto> PNum 10, ''carbs'' \<mapsto> PNum 20,
      ''fat'' \<mapsto> PNum 3, ''fiber'' \<mapsto> PNum 5, ''sugars'' \<mapsto> PNum 2]"

definition sample_entry :: row where
  "sample_entry =
     [''entry_id'' \<mapsto> PNum 1, ''user_id'' \<mapsto> PNum 2, ''food_id'' \<mapsto> PNum 5,
      ''date'' \<mapsto> PStr ''2025-11-01'', ''portion_size'' \<mapsto> PNum 2,
      ''calories'' \<mapsto> PNum 200, ''protein'' \<mapsto> PNum 20, ''carbs'' \<mapsto> PNum 40,
      ''fat'' \<mapsto> PNum 6, ''fiber'' \<mapsto> PNum 10, ''sugars'' \<mapsto> PNum 4,
      ''health_score'' \<mapsto> PNum 100, ''meal_type'' \<mapsto> PStr ''breakfast'',
      ''created_at'' \<mapsto> PStr ''2025-11-01T08:00:00'']"

definition sample_state :: state where
  "sample_state =
     \<lparr>users = sample_users, food_items = [sample_food], consumption = [sample_entry],
      user_profile_changes = [], next_user_id = 4, next_entry_id = 2,
      bootstrap_done = True, conn_plan = [], clock = PStr ''2025-11-02T12:00:00''\<rparr>"






text \<open>A store whose third connection block fails, and a stand-in for the hashing.\<close>

definition failing_audit_state :: state where
  "failing_audit_state = sample_state\<lparr>conn_plan := [True, True, False]\<rparr>"

definition sample_runtime :: runtime where
  "sample_runtime =
     \<lparr>generate_password_hash = (\<lambda>p. PStr (''hash:'' @ p)),
      check_password_hash = (\<lambda>h p. h = PStr (''hash:'' @ py_str p)),
      getenv = Map.empty\<rparr>"


section \<open>Rounding\<close>










section \<open>The calculators\<close>





text \<open>No multiple of 10 is closer to \<open>x\<close> than one that \<open>nearest_multiple_of_10\<close> accepts.\<close>

lemma nearest_is_nearest:
  "nearest_multiple_of_10 x r \<Longrightarrow> 10 dvd m \<Longrightarrow> \<bar>x - of_int r\<bar> \<le> \<bar>x - of_int m\<bar>"
proof -
  assume n: "nearest_multiple_of_10 x r" and m: "10 dvd m"
  from n have r: "10 dvd r" and d: "\<bar>x - of_int r\<bar> \<le> 5"
    by (simp_all add: nearest_multiple_of_10_def)
  show ?thesis
  proof (cases "m = r")
    case True
    then show ?thesis by simp
  next
    case False
    from r m have "10 dvd (m - r)" by simp
    then obtain k where k: "m - r = 10 * k" by (auto simp: dvd_def)
    with False have "k \<noteq> 0" by auto
    then have "\<bar>m - r\<bar> \<ge> 10" using k by (simp add: abs_mult)
    then have "\<bar>(of_int m :: rat) - of_int r\<bar> \<ge> 10"
      by (metis of_int_abs of_int_diff of_int_le_iff of_int_numeral)
    with d show ?thesis by linarith
  qed
qed



text \<open>
  Claim C9. Whatever the five inputs, a value that \<open>calculate_target_calories\<close>
  returns is a multiple of 10 within \<open>[1200, 4000]\<close>; it returns a value unless
  \<open>float()\<close> rejects the height or the weight.
\<close>

theorem target_calories_multiple_of_10_in_range:
  "(case calculate_target_calories height_value height_unit weight_value weight_unit
           dietary_goal of
      Inl e \<Rightarrow> py_float height_value = Inl e \<or> py_float weight_value = Inl e
    | Inr v \<Rightarrow> 10 dvd v \<and> 1200 \<le> v \<and> v \<le> 4000)"
  by (auto simp: calculate_target_calories_def Let_def max_def min_def split: sum.splits)

section \<open>Consumption entries\<close>

lemmas eval_defs =
  get_conn_def select_star_def select_one_def sql_eq_def update_set_def update_returning_def
  update_returning_star_def project_def field_float_def dict_get_def dict_get_default_def
  sample_state_def sample_users_def sample_food_def sample_entry_def admin1_def user2_def
  null_user_def user_columns_def updatable_keys_def Let_def

lemma get_conn_frame:
  "get_conn s = (ok, s1) \<Longrightarrow>
     users s1 = users s \<and> food_items s1 = food_items s \<and> consumption s1 = consumption s
     \<and> user_profile_changes s1 = user_profile_changes s
     \<and> next_user_id s1 = next_user_id s \<and> next_entry_id s1 = next_entry_id s
     \<and> bootstrap_done s1 = bootstrap_done s \<and> clock s1 = clock s"
  by (auto simp: get_conn_def split: list.splits)










text \<open>
  Claim C6, at the input where the code departs from it. The owner of the sample entry
  (two portions of a food item of 100 calories) sends an update with \<open>calories\<close> and
  no \<open>portion_size\<close>: the request succeeds and the entry is stored with 9999 calories,
  its portion size still 2 and the food item still at 100 calories.
\<close>

theorem update_consumption_writes_client_calories:
  "(case update_consumption 1 [''calories'' \<mapsto> PNum 9999] user2 sample_state of
      ((Row r, code), s') \<Rightarrow>
         code = 200 \<and> r ''calories'' = Some (PNum 9999)
         \<and> map (\<lambda>e. (e ''food_id'', e ''portion_size'', e ''calories'')) (consumption s')
             = [(Some (PNum 5), Some (PNum 2), Some (PNum 9999))]
         \<and> map (\<lambda>f. (f ''food_id'', f ''calories'')) (food_items s')
             = [(Some (PNum 5), Some (PNum 100))]
    | _ \<Rightarrow> False)"
  by (simp add: update_consumption_def update_consumption_write_def eval_defs map_add_def)

section \<open>The audit trail of profile changes\<close>

lemmas profile_eval_defs =
  compose_row_def profile_sets_def user_sets_def calculate_target_calories_def to_cm_def
  to_kg_def multiplier_of_def multipliers_def py_round_def unrealistic_def
  audit_profile_change_def changed_of_def tracked_fields_def show_num_def show_int_def
  digits.simps





















section \<open>Failures of the best-effort operations\<close>

text \<open>
  A failed bootstrap leaves no trace in the answer: the request is handled as if the
  bootstrap had not been due. Profile completion swallows a failure of the audit write.
\<close>

lemma bootstrap_failure_is_swallowed:
  assumes "conn_plan s = False # rest" and "\<not> bootstrap_done s"
  shows "serve rt handler s = handler (s\<lparr>conn_plan := rest, bootstrap_done := True\<rparr>)"
  using assms
  by (simp add: serve_def bootstrap_once_def ensure_admin_bootstrap_def get_conn_def Let_def)

lemma complete_profile_swallows_audit_failure:
  "snd (fst (complete_profile
           [''height_value'' \<mapsto> PNum 170, ''height_unit'' \<mapsto> PStr ''cm'',
            ''weight_value'' \<mapsto> PNum 80, ''weight_unit'' \<mapsto> PStr ''kg'',
            ''dietary_goal'' \<mapsto> PStr ''maintain''] user2 failing_audit_state)) = 200
   \<and> user_profile_changes (snd (complete_profile
           [''height_value'' \<mapsto> PNum 170, ''height_unit'' \<mapsto> PStr ''cm'',
            ''weight_value'' \<mapsto> PNum 80, ''weight_unit'' \<mapsto> PStr ''kg'',
            ''dietary_goal'' \<mapsto> PStr ''maintain''] user2 failing_audit_state)) = []"
  by (simp add: complete_profile_def complete_profile_write_def complete_profile_except_def
      failing_audit_state_def eval_defs profile_eval_defs map_add_def)

text \<open>
  Claim C8, at the input where the code departs from it. User 2 changes the weight from
  70 to 80 while the third connection block, the audit write, fails: the row is updated,
  and the request is answered with a 500.
\<close>

theorem update_profile_fails_on_audit_failure:
  "fst (update_profile [''weight_value'' \<mapsto> PNum 80] user2 failing_audit_state)
     = (Exception DBError, 500)
   \<and> dict_get (users (snd (update_profile [''weight_value'' \<mapsto> PNum 80] user2
                              failing_audit_state)) ! 1) ''weight_value'' = PNum 80
   \<and> dict_get (users failing_audit_state ! 1) ''weight_value'' = PNum 70"
  by (simp add: update_profile_def update_profile_write_def failing_audit_state_def
      eval_defs profile_eval_defs map_add_def)


theorem update_profile_fails_on_audit_failure_witness:
  "snd (fst (update_profile [''weight_value'' \<mapsto> PNum 80] user2 failing_audit_state)) = 500"
  using update_profile_fails_on_audit_failure by simp

section \<open>The confirmation gate\<close>














section \<open>Accounts without a password hash\<close>

lemma create_user_201:
  assumes "create_user data current s = ((Row r, 201), s')"
  shows "\<exists>new_row. users s' = users s @ [new_row]
           \<and> new_row ''username'' = Some (dict_get data ''username'')
           \<and> new_row ''password_hash'' = Some PNone
           \<and> r = project user_columns new_row"
proof -
  obtain ok s1 where gc: "get_conn s = (ok, s1)" by (cases "get_conn s")
  from assms gc get_conn_frame [OF gc] show ?thesis
    unfolding create_user_def Let_def
    by (auto split: if_splits sum.splits bool.splits simp: null_user_def)
qed

lemma strip_Nil: "strip [] = []"
  by (simp add: strip_def)

lemma login_null_hash_never_200:
  assumes "find (\<lambda>r. sql_eq r ''username'' (PStr (strip name))) (users s) = Some user"
    and "dict_get user ''password_hash'' = PNone"
    and "dict_get data ''username'' = PStr name"
  shows "snd (fst (login rt data session s)) \<noteq> 200
         \<and> fst (snd (login rt data session s)) = session"
proof -
  obtain ok s1 where gc: "get_conn s = (ok, s1)" by (cases "get_conn s")
  from get_conn_frame [OF gc] have u: "users s1 = users s" by simp
  have p: "dict_get (project [''user_id'', ''username'', ''role'', ''password_hash''] user)
             ''password_hash'' = PNone"
    using assms(2) by (simp add: dict_get_def project_def)
  show ?thesis
    using assms(1,3) gc u p
    by (cases ok) (auto simp: login_def Let_def select_one_def strip_Nil)
qed

lemma login_null_hash_401:
  assumes "find (\<lambda>r. sql_eq r ''username'' (PStr (strip name))) (users s) = Some user"
    and "dict_get user ''password_hash'' = PNone"
    and "dict_get data ''username'' = PStr name"
    and "strip name \<noteq> []" and "py_truthy (dict_get data ''password'')"
    and gc: "get_conn s = (True, s1)"
  shows "login rt data session s = ((Error ''Invalid username or password'', 401), session, s1)"
proof -
  from get_conn_frame [OF gc] have u: "users s1 = users s" by simp
  have p: "dict_get (project [''user_id'', ''username'', ''role'', ''password_hash''] user)
             ''password_hash'' = PNone"
    using assms(2) by (simp add: dict_get_def project_def)
  from assms(4) have n: "name \<noteq> []" by (auto simp: strip_def)
  show ?thesis
    using assms(1,3,4,5) gc u p n
    by (simp add: login_def Let_def select_one_def strip_Nil)
qed


text \<open>
  Claim C10. A user row created through the admin create-user endpoint is stored with no
  password hash. While the row that a login finds for the username has no password hash,
  the login never succeeds and never changes the session, whatever the password and
  whatever the store does; with a password supplied and a store that answers, the answer
  is the generic 401 for invalid credentials.
\<close>

theorem null_hash_account_cannot_log_in:
  "(create_user data current s = ((Row r, 201), s') \<longrightarrow>
      (\<exists>new_row. users s' = users s @ [new_row]
         \<and> new_row ''username'' = Some (dict_get data ''username'')
         \<and> new_row ''password_hash'' = Some PNone))
   \<and> (find (\<lambda>r. sql_eq r ''username'' (PStr (strip name))) (users t) = Some user
        \<and> dict_get user ''password_hash'' = PNone
        \<and> dict_get credentials ''username'' = PStr name \<longrightarrow>
      snd (fst (login rt credentials session t)) \<noteq> 200
      \<and> fst (snd (login rt credentials session t)) = session
      \<and> (strip name \<noteq> [] \<and> py_truthy (dict_get credentials ''password'')
           \<and> get_conn t = (True, tc) \<longrightarrow>
         login rt credentials session t
           = ((Error ''Invalid username or password'', 401), session, tc)))"
proof (intro conjI impI)
  assume "create_user data current s = ((Row r, 201), s')"
  from create_user_201 [OF this]
  show "\<exists>new_row. users s' = users s @ [new_row]
         \<and> new_row ''username'' = Some (dict_get data ''username'')
         \<and> new_row ''password_hash'' = Some PNone"
    by blast
next
  assume a: "find (\<lambda>r. sql_eq r ''username'' (PStr (strip name))) (users t) = Some user
        \<and> dict_get user ''password_hash'' = PNone
        \<and> dict_get credentials ''username'' = PStr name"
  then show "snd (fst (login rt credentials session t)) \<noteq> 200"
    using login_null_hash_never_200 [of name t user credentials rt session] by blast
  from a show "fst (snd (login rt credentials session t)) = session"
    using login_null_hash_never_200 [of name t user credentials rt session] by blast
  assume "strip name \<noteq> [] \<and> py_truthy (dict_get credentials ''password'')
           \<and> get_conn t = (True, tc)"
  with a show "login rt credentials session t
           = ((Error ''Invalid username or password'', 401), session, tc)"
    using login_null_hash_401 [of name t user credentials tc rt session] by blast
qed

lemma sample_create_user:
  "\<exists>r s'. create_user [''username'' \<mapsto> PStr ''cara'', ''height_value'' \<mapsto> PNum 170,
                       ''height_unit'' \<mapsto> PStr ''cm'', ''weight_value'' \<mapsto> PNum 70,
                       ''weight_unit'' \<mapsto> PStr ''kg''] admin1 sample_state
            = ((Row r, 201), s')
          \<and> conn_plan s' = []"
  by (simp add: create_user_def eval_defs profile_eval_defs)

theorem null_hash_account_cannot_log_in_witness:
  "\<exists>r s' new_row.
     create_user [''username'' \<mapsto> PStr ''cara'', ''height_value'' \<mapsto> PNum 170,
                  ''height_unit'' \<mapsto> PStr ''cm'', ''weight_value'' \<mapsto> PNum 70,
                  ''weight_unit'' \<mapsto> PStr ''kg''] admin1 sample_state
       = ((Row r, 201), s')
     \<and> users s' = users sample_state @ [new_row]
     \<and> new_row ''password_hash'' = Some PNone
     \<and> login sample_runtime [''username'' \<mapsto> PStr ''cara'', ''password'' \<mapsto> PStr ''secret'']
          None s'
        = ((Error ''Invalid username or password'', 401), None, s')"
proof -
  let ?d = "[''username'' \<mapsto> PStr ''cara'', ''height_value'' \<mapsto> PNum 170,
             ''height_unit'' \<mapsto> PStr ''cm'', ''weight_value'' \<mapsto> PNum 70,
             ''weight_unit'' \<mapsto> PStr ''kg'']"
  let ?c = "[''username'' \<mapsto> PStr ''cara'', ''password'' \<mapsto> PStr ''secret'']"
  from sample_create_user obtain r s' where
    c: "create_user ?d admin1 sample_state = ((Row r, 201), s')" and p: "conn_plan s' = []"
    by blast
  note t = null_hash_account_cannot_log_in
             [where data = ?d and current = admin1 and s = sample_state and r = r and s' = s'
                and name = "''cara''" and t = s' and credentials = ?c
                and rt = sample_runtime and session = None and tc = s']
  from t c obtain new_row where
    u: "users s' = users sample_state @ [new_row]"
    and n: "new_row ''username'' = Some (dict_get ?d ''username'')"
    and h: "new_row ''password_hash'' = Some PNone"
    by blast
  have st: "strip ''cara'' = ''cara''" by (simp add: strip_def is_space_def)
  have f: "find (\<lambda>r. sql_eq r ''username'' (PStr (strip ''cara''))) (users s') = Some new_row"
    using n unfolding u st
    by (simp add: sample_state_def sample_users_def sql_eq_def dict_get_def)
  have g: "get_conn s' = (True, s')" using p by (simp add: get_conn_def)
  have "login sample_runtime ?c None s'
          = ((Error ''Invalid username or password'', 401), None, s')"
    using t [where user = new_row] f h g st by (simp add: dict_get_def)
  with c u h show ?thesis by blast
qed


end
